theory Spec2Isabelle
  imports Main "HOL-Library.AList" "HOL-Library.Multiset"
begin

section \<open>The Livebox Play TV media player\<close>

text \<open>
  A shallow embedding of \<^verbatim>\<open>homeassistant/components/liveboxplaytv/media_player.py\<close>.
  The entity \<^verbatim>\<open>LiveboxPlayTvDevice\<close> is a record of its private attributes; every
  method takes the record and returns it updated, together with the way the method
  ended (it returned, or it raised). The collaborators the module imports
  (the \<^verbatim>\<open>liveboxplaytv\<close> client, \<^verbatim>\<open>pyteleloisirs\<close>, the clock of
  \<^verbatim>\<open>dt_util\<close>) are not part of the module: one record holds what each of their
  calls answers during the method that is running, a value or an exception.
\<close>

subsection \<open>Values and exceptions\<close>

text \<open>
  \<^verbatim>\<open>except requests.ConnectionError\<close> separates two kinds of exception: the instances
  of \<^verbatim>\<open>requests.ConnectionError\<close>, and all others (\<^verbatim>\<open>KeyError\<close>, \<^verbatim>\<open>ValueError\<close>, ...).
\<close>

datatype error = ConnectionError | OtherError

text \<open>How a method ends.\<close>

datatype outcome = Returns | Raises error

text \<open>
  The four constants of \<^verbatim>\<open>homeassistant.const\<close> the module stores in \<^verbatim>\<open>_state\<close>;
  the fifth value \<^verbatim>\<open>_state\<close> takes is Python's \<^verbatim>\<open>None\<close>.
\<close>

datatype playback_state = STATE_OFF | STATE_ON | STATE_PAUSED | STATE_PLAYING

text \<open>
  The values found in a program dictionary, and the dictionary itself as an association
  list. Only \<^verbatim>\<open>dict.get\<close> and the truth value of the dictionary are used by the module.
\<close>

datatype pyval = PyNone | PyStr string | PyInt int

type_synonym pydict = "(string \<times> pyval) list"

definition dict_get :: "pydict \<Rightarrow> string \<Rightarrow> pyval" where
  \<comment> \<open>\<^verbatim>\<open>d.get(k)\<close>: \<^verbatim>\<open>None\<close> for a missing key.\<close>
  "dict_get d k = (case map_of d k of None \<Rightarrow> PyNone | Some v \<Rightarrow> v)"

definition truthy_url :: "string option \<Rightarrow> bool" where
  \<comment> \<open>The truth value of a URL: \<^verbatim>\<open>None\<close> and the empty string are false.\<close>
  "truthy_url u = (case u of None \<Rightarrow> False | Some s \<Rightarrow> s \<noteq> [])"

text \<open>
  One entry of the catalogue \<^verbatim>\<open>get_channels()\<close> returns, as far as
  \<^verbatim>\<open>refresh_channel_list\<close> looks at it: what \<^verbatim>\<open>channel['name']\<close> evaluates to and what
  \<^verbatim>\<open>int(channel['index'])\<close> evaluates to, each a value or the exception raised
  (a missing key, an index that is not a number).
\<close>

record channel_entry =
  entry_name :: "error + string"
  entry_index :: "error + int"

subsection \<open>The collaborators\<close>

record world =
  client_media_state :: "error + string option"
  client_is_on :: "error + bool"
  client_get_channels :: "error + channel_entry list"
  client_channel :: "error + string option"
  client_async_get_current_program :: "error + pydict option"
  client_async_get_current_program_image :: "int \<Rightarrow> error + string option"
  client_get_current_channel_image :: "int \<Rightarrow> error + string option"
  get_program_duration :: "pydict \<Rightarrow> error + int option"
  get_remaining_time :: "pydict \<Rightarrow> error + int option"
  utcnow :: int
  client_turn_off :: "error + unit"
  client_turn_on :: "error + unit"
  client_mute :: "error + unit"
  client_set_channel :: "string \<Rightarrow> error + unit"
  client_play :: "error + unit"
  client_pause :: "error + unit"

subsection \<open>The entity\<close>

text \<open>
  The attributes of \<^verbatim>\<open>LiveboxPlayTvDevice\<close>, without the leading underscore.
  \<^verbatim>\<open>_channel_list\<close> is a dictionary from \<^verbatim>\<open>int\<close> to the channel name, kept as an
  association list in insertion order.
\<close>

record device =
  muted :: bool
  name :: string
  current_source :: "string option"
  state :: "playback_state option"
  channel_list :: "(int \<times> string) list"
  current_channel :: "string option"
  current_program :: pyval
  media_duration :: "int option"
  media_remaining_time :: "int option"
  media_image_url :: "string option"
  media_last_updated :: "int option"

definition init :: "string \<Rightarrow> device" where
  \<comment> \<open>\<^verbatim>\<open>__init__\<close>\<close>
  "init nm = \<lparr> muted = False, name = nm, current_source = None, state = None,
     channel_list = [], current_channel = None, current_program = PyNone,
     media_duration = None, media_remaining_time = None, media_image_url = None,
     media_last_updated = None \<rparr>"

subsection \<open>Polling\<close>

definition refresh_state :: "world \<Rightarrow> error + playback_state" where
  "refresh_state w =
     (case client_media_state w of
        Inl e \<Rightarrow> Inl e
      | Inr st \<Rightarrow>
          if st = Some ''PLAY'' then Inr STATE_PLAYING
          else if st = Some ''PAUSE'' then Inr STATE_PAUSED
          else (case client_is_on w of
                  Inl e \<Rightarrow> Inl e
                | Inr on \<Rightarrow> Inr (if on then STATE_ON else STATE_OFF)))"

text \<open>
  The loop of \<^verbatim>\<open>refresh_channel_list\<close>. In the assignment
  \<^verbatim>\<open>new_channel_list[int(channel['index'])] = channel['name']\<close> Python evaluates the right
  side first. Storing under a key already present replaces the value in place.
\<close>

fun new_channel_list :: "channel_entry list \<Rightarrow> (int \<times> string) list \<Rightarrow> error + (int \<times> string) list" where
  "new_channel_list [] acc = Inr acc"
| "new_channel_list (channel # rest) acc =
     (case entry_name channel of
        Inl e \<Rightarrow> Inl e
      | Inr nm \<Rightarrow>
         (case entry_index channel of
            Inl e \<Rightarrow> Inl e
          | Inr i \<Rightarrow> new_channel_list rest (AList.update i nm acc)))"

definition refresh_channel_list :: "world \<Rightarrow> device \<Rightarrow> outcome \<times> device" where
  "refresh_channel_list w d =
     (case client_get_channels w of
        Inl e \<Rightarrow> (Raises e, d)
      | Inr channels \<Rightarrow>
         (case new_channel_list channels [] of
            Inl e \<Rightarrow> (Raises e, d)
          | Inr l \<Rightarrow> (Returns, d\<lparr>channel_list := l\<rparr>)))"

text \<open>Lines 90 to 100 of \<^verbatim>\<open>async_update\<close>: the current program.\<close>

definition update_program :: "world \<Rightarrow> device \<Rightarrow> outcome \<times> device" where
  "update_program w d =
     (case client_async_get_current_program w of
        Inl e \<Rightarrow> (Raises e, d)
      | Inr None \<Rightarrow> (Returns, d)
      | Inr (Some program) \<Rightarrow>
          if program \<noteq> [] \<and> current_program d \<noteq> dict_get program ''name'' then
            let d1 = d\<lparr>current_program := dict_get program ''name''\<rparr> in
            (case get_program_duration w program of
               Inl e \<Rightarrow> (Raises e, d1)
             | Inr dur \<Rightarrow>
                 let d2 = d1\<lparr>media_duration := dur\<rparr> in
                 (case get_remaining_time w program of
                    Inl e \<Rightarrow> (Raises e, d2)
                  | Inr rtime \<Rightarrow>
                      if rtime \<noteq> media_remaining_time d2 then
                        (Returns, d2\<lparr>media_remaining_time := rtime,
                                     media_last_updated := Some (utcnow w)\<rparr>)
                      else (Returns, d2)))
          else (Returns, d))"

text \<open>Lines 101 to 111 of \<^verbatim>\<open>async_update\<close>: the image.\<close>

definition img_size :: int where
  "img_size = 800"

definition update_image :: "world \<Rightarrow> device \<Rightarrow> outcome \<times> device" where
  "update_image w d =
     (case client_async_get_current_program_image w img_size of
        Inl e \<Rightarrow> (Raises e, d)
      | Inr prg_img_url \<Rightarrow>
          if truthy_url prg_img_url then (Returns, d\<lparr>media_image_url := prg_img_url\<rparr>)
          else (case client_get_current_channel_image w img_size of
                  Inl e \<Rightarrow> (Raises e, d)
                | Inr chan_img_url \<Rightarrow> (Returns, d\<lparr>media_image_url := chan_img_url\<rparr>)))"

text \<open>The body of the \<^verbatim>\<open>try\<close> statement of \<^verbatim>\<open>async_update\<close>, lines 83 to 111.\<close>

definition update_body :: "world \<Rightarrow> device \<Rightarrow> outcome \<times> device" where
  "update_body w d =
     (case refresh_state w of
        Inl e \<Rightarrow> (Raises e, d)
      | Inr s \<Rightarrow>
         (case refresh_channel_list w (d\<lparr>state := Some s\<rparr>) of
            (Raises e, d2) \<Rightarrow> (Raises e, d2)
          | (Returns, d2) \<Rightarrow>
             (case client_channel w of
                Inl e \<Rightarrow> (Raises e, d2)
              | Inr None \<Rightarrow> (Returns, d2)
              | Inr (Some channel) \<Rightarrow>
                 (case update_program w (d2\<lparr>current_channel := Some channel\<rparr>) of
                    (Raises e, d4) \<Rightarrow> (Raises e, d4)
                  | (Returns, d4) \<Rightarrow> update_image w d4))))"

definition async_update :: "world \<Rightarrow> device \<Rightarrow> outcome \<times> device" where
  "async_update w d =
     (case update_body w d of
        (Raises ConnectionError, d') \<Rightarrow> (Returns, d'\<lparr>state := None\<rparr>)
      | r \<Rightarrow> r)"

subsection \<open>Properties\<close>

definition source :: "device \<Rightarrow> string option" where
  "source d = current_channel d"

definition source_list :: "device \<Rightarrow> string list" where
  \<comment> \<open>Every key the comprehension looks up is a key of the dictionary.\<close>
  "source_list d = map (\<lambda>c. the (map_of (channel_list d) c)) (sort (map fst (channel_list d)))"

definition is_volume_muted :: "device \<Rightarrow> bool" where
  "is_volume_muted d = muted d"

subsection \<open>Commands\<close>

definition call :: "error + unit \<Rightarrow> device \<Rightarrow> outcome \<times> device" where
  \<comment> \<open>A call of the client as the last statement of a method.\<close>
  "call r d = (case r of Inl e \<Rightarrow> (Raises e, d) | Inr u \<Rightarrow> (Returns, d))"

definition turn_off :: "world \<Rightarrow> device \<Rightarrow> outcome \<times> device" where
  "turn_off w d = call (client_turn_off w) (d\<lparr>state := Some STATE_OFF\<rparr>)"

definition turn_on :: "world \<Rightarrow> device \<Rightarrow> outcome \<times> device" where
  "turn_on w d = call (client_turn_on w) (d\<lparr>state := Some STATE_ON\<rparr>)"

definition mute_volume :: "world \<Rightarrow> device \<Rightarrow> bool \<Rightarrow> outcome \<times> device" where
  "mute_volume w d mute = call (client_mute w) (d\<lparr>muted := mute\<rparr>)"

definition select_source :: "world \<Rightarrow> device \<Rightarrow> string \<Rightarrow> outcome \<times> device" where
  "select_source w d src = call (client_set_channel w src) (d\<lparr>current_source := Some src\<rparr>)"

definition media_play :: "world \<Rightarrow> device \<Rightarrow> outcome \<times> device" where
  "media_play w d = call (client_play w) (d\<lparr>state := Some STATE_PLAYING\<rparr>)"

definition media_pause :: "world \<Rightarrow> device \<Rightarrow> outcome \<times> device" where
  "media_pause w d = call (client_pause w) (d\<lparr>state := Some STATE_PAUSED\<rparr>)"

subsection \<open>Notions used in the statements\<close>

text \<open>
  The keys of a Python dictionary are unique: the association list that stands for
  \<^verbatim>\<open>_channel_list\<close> has no index twice.
\<close>

definition wf_channel_list :: "device \<Rightarrow> bool" where
  "wf_channel_list d = distinct (map fst (channel_list d))"

text \<open>
  What the loop of \<^verbatim>\<open>refresh_channel_list\<close> stores for a catalogue all of whose entries
  evaluate: the index and the name of each entry, in the order of the catalogue.
\<close>

definition pairs :: "channel_entry list \<Rightarrow> (int \<times> string) list" where
  "pairs chs = map (\<lambda>c. (projr (entry_index c), projr (entry_name c))) chs"

subsection \<open>A sample appliance\<close>

text \<open>
  The appliance of the first end-to-end scenario: it is on and playing channel 5, where
  the programme News of 1800 seconds is at 900 seconds. It has no thumbnail for the
  programme, and its catalogue comes in no particular order.
\<close>

definition news :: pydict where
  "news = [(''name'', PyStr ''News'')]"

definition w_play :: world where
  "w_play = \<lparr> client_media_state = Inr (Some ''PLAY''), client_is_on = Inr True,
     client_get_channels = Inr
       [\<lparr>entry_name = Inr ''France 3'', entry_index = Inr 3\<rparr>,
        \<lparr>entry_name = Inr ''TF1'', entry_index = Inr 1\<rparr>,
        \<lparr>entry_name = Inr ''France 2'', entry_index = Inr 2\<rparr>],
     client_channel = Inr (Some ''5''),
     client_async_get_current_program = Inr (Some news),
     client_async_get_current_program_image = (\<lambda>n. Inr None),
     client_get_current_channel_image = (\<lambda>n. Inr (Some ''logo'')),
     get_program_duration = (\<lambda>p. Inr (Some 1800)),
     get_remaining_time = (\<lambda>p. Inr (Some 900)),
     utcnow = 1000,
     client_turn_off = Inr (), client_turn_on = Inr (), client_mute = Inr (),
     client_set_channel = (\<lambda>c. Inr ()), client_play = Inr (), client_pause = Inr () \<rparr>"

text \<open>The entity after its first poll of that appliance.\<close>

definition d_news :: device where
  "d_news = \<lparr> muted = False, name = ''Livebox Play TV'', current_source = None,
     state = Some STATE_PLAYING,
     channel_list = [(3, ''France 3''), (1, ''TF1''), (2, ''France 2'')],
     current_channel = Some ''5'', current_program = PyStr ''News'',
     media_duration = Some 1800, media_remaining_time = Some 900,
     media_image_url = Some ''logo'', media_last_updated = Some 1000 \<rparr>"

text \<open>The same appliance later, in other situations.\<close>

definition w_down :: world where
  \<comment> \<open>the appliance does not answer the first query\<close>
  "w_down = w_play\<lparr>client_media_state := Inl ConnectionError\<rparr>"

definition w_no_catalogue :: world where
  \<comment> \<open>the appliance answers the first query, then the connection drops\<close>
  "w_no_catalogue = w_play\<lparr>client_get_channels := Inl ConnectionError\<rparr>"

definition w_play_off :: world where
  \<comment> \<open>playing, with the power flag off\<close>
  "w_play_off = w_play\<lparr>client_is_on := Inr False\<rparr>"

definition w_pause :: world where
  "w_pause = w_play\<lparr>client_media_state := Inr (Some ''PAUSE'')\<rparr>"

definition w_idle :: world where
  \<comment> \<open>on, neither playing nor paused\<close>
  "w_idle = w_play\<lparr>client_media_state := Inr None\<rparr>"

definition w_standby :: world where
  \<comment> \<open>off, no channel tuned, while everything else would have changed\<close>
  "w_standby = w_play\<lparr>client_media_state := Inr None, client_is_on := Inr False,
     client_channel := Inr None,
     client_async_get_current_program := Inr (Some [(''name'', PyStr ''Film'')]),
     client_async_get_current_program_image := (\<lambda>n. Inr (Some ''thumb'')),
     get_remaining_time := (\<lambda>p. Inr (Some 60)), utcnow := 3000\<rparr>"

definition w_later :: world where
  \<comment> \<open>the same programme, further on\<close>
  "w_later = w_play\<lparr>get_remaining_time := (\<lambda>p. Inr (Some 600)), utcnow := 2000\<rparr>"

definition film :: pydict where
  "film = [(''name'', PyStr ''Film'')]"

definition w_film :: world where
  \<comment> \<open>the next programme has started\<close>
  "w_film = w_play\<lparr>client_async_get_current_program := Inr (Some film),
     get_program_duration := (\<lambda>p. Inr (Some 5400)),
     get_remaining_time := (\<lambda>p. Inr (Some 60)), utcnow := 3000\<rparr>"

definition w_film_same :: world where
  \<comment> \<open>the next programme, at the position stored for the previous one\<close>
  "w_film_same = w_film\<lparr>get_remaining_time := (\<lambda>p. Inr (Some 900))\<rparr>"

definition w_thumb :: world where
  \<comment> \<open>the programme has a thumbnail of 800 pixels\<close>
  "w_thumb = w_play\<lparr>client_async_get_current_program_image :=
     (\<lambda>n. if n = 800 then Inr (Some ''thumb'') else Inr None)\<rparr>"

definition w_unreachable :: world where
  \<comment> \<open>every command fails\<close>
  "w_unreachable = w_play\<lparr>client_turn_off := Inl ConnectionError,
     client_turn_on := Inl ConnectionError, client_mute := Inl ConnectionError,
     client_play := Inl ConnectionError, client_pause := Inl ConnectionError\<rparr>"

text \<open>The next programme has started, and one call after the other loses the connection.\<close>

definition w_no_tuner :: world where
  "w_no_tuner = w_film\<lparr>client_channel := Inl ConnectionError\<rparr>"

definition w_no_guide :: world where
  "w_no_guide = w_film\<lparr>client_async_get_current_program := Inl ConnectionError\<rparr>"

definition w_no_duration :: world where
  "w_no_duration = w_film\<lparr>get_program_duration := (\<lambda>p. Inl ConnectionError)\<rparr>"

definition w_no_position :: world where
  "w_no_position = w_film\<lparr>get_remaining_time := (\<lambda>p. Inl ConnectionError)\<rparr>"

definition w_no_thumbnail :: world where
  "w_no_thumbnail = w_film\<lparr>client_async_get_current_program_image :=
     (\<lambda>n. Inl ConnectionError)\<rparr>"

definition w_no_logo :: world where
  "w_no_logo = w_film\<lparr>client_get_current_channel_image := (\<lambda>n. Inl ConnectionError)\<rparr>"

section \<open>Verification\<close>

lemmas poll_defs = async_update_def update_body_def refresh_state_def refresh_channel_list_def
  update_program_def update_image_def dict_get_def img_size_def truthy_url_def

lemmas sample_defs = w_play_def d_news_def news_def film_def

lemma d_news_poll: "async_update w_play (init ''Livebox Play TV'') = (Returns, d_news)"
  by (simp add: poll_defs sample_defs init_def)

text \<open>The second end-to-end scenario: the same program at the same position.\<close>

lemma d_news_again: "async_update (w_play\<lparr>utcnow := 2000\<rparr>) d_news = (Returns, d_news)"
  by (simp add: poll_defs sample_defs)

subsection \<open>What the steps of a poll leave alone\<close>

lemma refresh_channel_list_Returns:
  assumes "fst (refresh_channel_list w d) = Returns"
  shows "\<exists>l. refresh_channel_list w e = (Returns, e\<lparr>channel_list := l\<rparr>)"
  using assms by (auto simp: refresh_channel_list_def split: sum.splits)

lemma state_frame:
  "refresh_channel_list w d = (r, d') \<Longrightarrow> state d' = state d"
  "update_program w d = (r, d') \<Longrightarrow> state d' = state d"
  "update_image w d = (r, d') \<Longrightarrow> state d' = state d"
  by (auto simp: refresh_channel_list_def update_program_def update_image_def Let_def
      split: sum.splits option.splits if_splits)

lemma async_update_frame:
  "media_remaining_time (snd (async_update w d)) = media_remaining_time (snd (update_body w d))"
  "media_last_updated (snd (async_update w d)) = media_last_updated (snd (update_body w d))"
  "media_duration (snd (async_update w d)) = media_duration (snd (update_body w d))"
  "media_image_url (snd (async_update w d)) = media_image_url (snd (update_body w d))"
  "current_program (snd (async_update w d)) = current_program (snd (update_body w d))"
  by (auto simp: async_update_def split: prod.splits outcome.splits error.splits)

lemma then_image_frame:
  "media_remaining_time (snd (case r of (Raises e, d4) \<Rightarrow> (Raises e, d4)
     | (Returns, d4) \<Rightarrow> update_image w d4)) = media_remaining_time (snd r)"
  "media_last_updated (snd (case r of (Raises e, d4) \<Rightarrow> (Raises e, d4)
     | (Returns, d4) \<Rightarrow> update_image w d4)) = media_last_updated (snd r)"
  "media_duration (snd (case r of (Raises e, d4) \<Rightarrow> (Raises e, d4)
     | (Returns, d4) \<Rightarrow> update_image w d4)) = media_duration (snd r)"
  "current_program (snd (case r of (Raises e, d4) \<Rightarrow> (Raises e, d4)
     | (Returns, d4) \<Rightarrow> update_image w d4)) = current_program (snd r)"
  by (auto simp: update_image_def split: prod.splits outcome.splits sum.splits)

text \<open>What the poll does once the tuned channel is known.\<close>

lemma update_body_tuned:
  assumes "refresh_state w = Inr s" and "fst (refresh_channel_list w d) = Returns"
    and "client_channel w = Inr (Some ch)"
  shows "\<exists>l. update_body w d =
    (case update_program w (d\<lparr>state := Some s, channel_list := l, current_channel := Some ch\<rparr>) of
       (Raises e, d4) \<Rightarrow> (Raises e, d4)
     | (Returns, d4) \<Rightarrow> update_image w d4)"
proof -
  from refresh_channel_list_Returns [OF assms(2)]
  obtain l where "refresh_channel_list w (d\<lparr>state := Some s\<rparr>)
      = (Returns, d\<lparr>state := Some s, channel_list := l\<rparr>)"
    by auto
  then show ?thesis
    using assms(1,3) by (auto simp: update_body_def)
qed

text \<open>Where an exception of a later step leaves the body of the poll.\<close>

lemma later_steps_raise:
  "refresh_state w = Inr s \<Longrightarrow> client_get_channels w = Inl e \<Longrightarrow>
     update_body w d = (Raises e, d\<lparr>state := Some s\<rparr>)"
  "refresh_state w = Inr s \<Longrightarrow> fst (refresh_channel_list w d) = Returns \<Longrightarrow>
     client_channel w = Inl e \<Longrightarrow> fst (update_body w d) = Raises e"
  "refresh_state w = Inr s \<Longrightarrow> fst (refresh_channel_list w d) = Returns \<Longrightarrow>
     client_channel w = Inr (Some ch) \<Longrightarrow> client_async_get_current_program w = Inl e \<Longrightarrow>
     fst (update_body w d) = Raises e"
  "refresh_state w = Inr s \<Longrightarrow> fst (refresh_channel_list w d) = Returns \<Longrightarrow>
     client_channel w = Inr (Some ch) \<Longrightarrow> client_async_get_current_program w = Inr None \<Longrightarrow>
     client_async_get_current_program_image w 800 = Inl e \<Longrightarrow>
     fst (update_body w d) = Raises e"
proof -
  show "refresh_state w = Inr s \<Longrightarrow> client_get_channels w = Inl e \<Longrightarrow>
     update_body w d = (Raises e, d\<lparr>state := Some s\<rparr>)"
    by (simp add: update_body_def refresh_channel_list_def)
next
  assume "refresh_state w = Inr s" "fst (refresh_channel_list w d) = Returns"
    "client_channel w = Inl e"
  with refresh_channel_list_Returns [of w d "d\<lparr>state := Some s\<rparr>"]
  show "fst (update_body w d) = Raises e"
    by (auto simp: update_body_def)
next
  assume a: "refresh_state w = Inr s" "fst (refresh_channel_list w d) = Returns"
    "client_channel w = Inr (Some ch)" and "client_async_get_current_program w = Inl e"
  with update_body_tuned [OF a] show "fst (update_body w d) = Raises e"
    by (auto simp: update_program_def)
next
  assume a: "refresh_state w = Inr s" "fst (refresh_channel_list w d) = Returns"
    "client_channel w = Inr (Some ch)" and "client_async_get_current_program w = Inr None"
    "client_async_get_current_program_image w 800 = Inl e"
  with update_body_tuned [OF a] show "fst (update_body w d) = Raises e"
    by (auto simp: update_program_def update_image_def img_size_def)
qed

subsection \<open>Failure of the first query\<close>

text \<open>
  C1. When the query of the playback state (\<^verbatim>\<open>media_state\<close>, then \<^verbatim>\<open>is_on\<close>) raises a
  connection error, the poll returns with \<^verbatim>\<open>_state\<close> set to \<^verbatim>\<open>None\<close> and with every
  other attribute as it was: the channel list, the current channel, the program name,
  the duration, the remaining time, the image and the time of the last update.
\<close>

theorem state_query_failure:
  assumes "refresh_state w = Inl ConnectionError"
  shows "async_update w d = (Returns, d\<lparr>state := None\<rparr>)
    \<and> state (snd (async_update w d)) = None
    \<and> channel_list (snd (async_update w d)) = channel_list d
    \<and> current_channel (snd (async_update w d)) = current_channel d
    \<and> current_program (snd (async_update w d)) = current_program d
    \<and> media_duration (snd (async_update w d)) = media_duration d
    \<and> media_remaining_time (snd (async_update w d)) = media_remaining_time d
    \<and> media_image_url (snd (async_update w d)) = media_image_url d
    \<and> media_last_updated (snd (async_update w d)) = media_last_updated d"
  using assms by (simp add: async_update_def update_body_def)

text \<open>The third end-to-end scenario: the entity still shows News on channel 5.\<close>

theorem state_query_failure_witness:
  "refresh_state w_down = Inl ConnectionError
   \<and> async_update w_down d_news = (Returns, d_news\<lparr>state := None\<rparr>)
   \<and> current_channel (snd (async_update w_down d_news)) = Some ''5''
   \<and> current_program (snd (async_update w_down d_news)) = PyStr ''News''"
proof -
  have h: "refresh_state w_down = Inl ConnectionError"
    by (simp add: refresh_state_def w_down_def w_play_def)
  show ?thesis
    using h state_query_failure [OF h, of d_news] by (simp add: d_news_def)
qed

subsection \<open>Failures after the first query\<close>

text \<open>
  The \<^verbatim>\<open>try\<close> statement encloses the whole poll, not only the first query. Here the
  catalogue, the second step, raises a connection error after the first query has
  answered: the poll returns, and nothing reaches the caller.
\<close>

theorem later_failure_counterexample:
  "refresh_state w_no_catalogue = Inr STATE_PLAYING
   \<and> client_get_channels w_no_catalogue = Inl ConnectionError
   \<and> async_update w_no_catalogue d_news = (Returns, d_news\<lparr>state := None\<rparr>)
   \<and> fst (async_update w_no_catalogue d_news) \<noteq> Raises ConnectionError"
  by (simp add: poll_defs sample_defs w_no_catalogue_def)

text \<open>
  C2, amended. No poll lets a connection error reach its caller. Whichever call raises
  it (the state query, the catalogue, the tuned channel, the program and its duration
  and remaining time, the image of the program, the image of the channel), the poll
  returns with \<^verbatim>\<open>_state\<close> set to \<^verbatim>\<open>None\<close> and with the other attributes as the
  statements before that call left them.
\<close>

theorem connection_error_caught:
  "fst (async_update w d) \<noteq> Raises ConnectionError
   \<and> (fst (update_body w d) = Raises ConnectionError \<longrightarrow>
        async_update w d = (Returns, (snd (update_body w d))\<lparr>state := None\<rparr>))
   \<and> (refresh_state w = Inl ConnectionError \<longrightarrow>
        async_update w d = (Returns, d\<lparr>state := None\<rparr>))
   \<and> (refresh_state w = Inr s \<and> client_get_channels w = Inl ConnectionError \<longrightarrow>
        async_update w d = (Returns, d\<lparr>state := None\<rparr>))
   \<and> (refresh_state w = Inr s \<and> client_get_channels w = Inr chs
        \<and> new_channel_list chs [] = Inr l
        \<and> client_channel w = Inl ConnectionError \<longrightarrow>
        async_update w d = (Returns, d\<lparr>state := None, channel_list := l\<rparr>))
   \<and> (refresh_state w = Inr s \<and> client_get_channels w = Inr chs
        \<and> new_channel_list chs [] = Inr l
        \<and> client_channel w = Inr (Some ch)
        \<and> client_async_get_current_program w = Inl ConnectionError \<longrightarrow>
        async_update w d
          = (Returns, d\<lparr>state := None, channel_list := l, current_channel := Some ch\<rparr>))
   \<and> (refresh_state w = Inr s \<and> client_get_channels w = Inr chs
        \<and> new_channel_list chs [] = Inr l
        \<and> client_channel w = Inr (Some ch)
        \<and> client_async_get_current_program w = Inr (Some p)
        \<and> p \<noteq> [] \<and> current_program d \<noteq> dict_get p ''name''
        \<and> get_program_duration w p = Inl ConnectionError \<longrightarrow>
        async_update w d
          = (Returns, d\<lparr>state := None, channel_list := l, current_channel := Some ch,
               current_program := dict_get p ''name''\<rparr>))
   \<and> (refresh_state w = Inr s \<and> client_get_channels w = Inr chs
        \<and> new_channel_list chs [] = Inr l
        \<and> client_channel w = Inr (Some ch)
        \<and> client_async_get_current_program w = Inr (Some p)
        \<and> p \<noteq> [] \<and> current_program d \<noteq> dict_get p ''name''
        \<and> get_program_duration w p = Inr dur
        \<and> get_remaining_time w p = Inl ConnectionError \<longrightarrow>
        async_update w d
          = (Returns, d\<lparr>state := None, channel_list := l, current_channel := Some ch,
               current_program := dict_get p ''name'', media_duration := dur\<rparr>))
   \<and> (refresh_state w = Inr s \<and> client_get_channels w = Inr chs
        \<and> new_channel_list chs [] = Inr l
        \<and> client_channel w = Inr (Some ch)
        \<and> update_program w (d\<lparr>state := Some s, channel_list := l, current_channel := Some ch\<rparr>)
            = (Returns, d4)
        \<and> client_async_get_current_program_image w 800 = Inl ConnectionError \<longrightarrow>
        async_update w d = (Returns, d4\<lparr>state := None\<rparr>))
   \<and> (refresh_state w = Inr s \<and> client_get_channels w = Inr chs
        \<and> new_channel_list chs [] = Inr l
        \<and> client_channel w = Inr (Some ch)
        \<and> update_program w (d\<lparr>state := Some s, channel_list := l, current_channel := Some ch\<rparr>)
            = (Returns, d4)
        \<and> client_async_get_current_program_image w 800 = Inr u \<and> \<not> truthy_url u
        \<and> client_get_current_channel_image w 800 = Inl ConnectionError \<longrightarrow>
        async_update w d = (Returns, d4\<lparr>state := None\<rparr>))"
proof (intro conjI impI; (elim conjE)?)
  show "fst (async_update w d) \<noteq> Raises ConnectionError"
    by (auto simp: async_update_def split: prod.splits outcome.splits error.splits)
next
  assume "fst (update_body w d) = Raises ConnectionError"
  then show "async_update w d = (Returns, (snd (update_body w d))\<lparr>state := None\<rparr>)"
    by (auto simp: async_update_def split: prod.splits outcome.splits error.splits)
next
  assume "refresh_state w = Inl ConnectionError"
  then show "async_update w d = (Returns, d\<lparr>state := None\<rparr>)"
    by (simp add: async_update_def update_body_def)
next
  assume "refresh_state w = Inr s" "client_get_channels w = Inl ConnectionError"
  then show "async_update w d = (Returns, d\<lparr>state := None\<rparr>)"
    by (simp add: async_update_def update_body_def refresh_channel_list_def)
next
  assume "refresh_state w = Inr s" "client_get_channels w = Inr chs"
    "new_channel_list chs [] = Inr l" "client_channel w = Inl ConnectionError"
  then show "async_update w d = (Returns, d\<lparr>state := None, channel_list := l\<rparr>)"
    by (simp add: async_update_def update_body_def refresh_channel_list_def)
next
  assume "refresh_state w = Inr s" "client_get_channels w = Inr chs"
    "new_channel_list chs [] = Inr l" "client_channel w = Inr (Some ch)"
    "client_async_get_current_program w = Inl ConnectionError"
  then show "async_update w d
      = (Returns, d\<lparr>state := None, channel_list := l, current_channel := Some ch\<rparr>)"
    by (simp add: async_update_def update_body_def refresh_channel_list_def update_program_def)
next
  assume "refresh_state w = Inr s" "client_get_channels w = Inr chs"
    "new_channel_list chs [] = Inr l" "client_channel w = Inr (Some ch)"
    "client_async_get_current_program w = Inr (Some p)"
    "p \<noteq> []" "current_program d \<noteq> dict_get p ''name''"
    "get_program_duration w p = Inl ConnectionError"
  then show "async_update w d
      = (Returns, d\<lparr>state := None, channel_list := l, current_channel := Some ch,
           current_program := dict_get p ''name''\<rparr>)"
    by (simp add: async_update_def update_body_def refresh_channel_list_def update_program_def)
next
  assume "refresh_state w = Inr s" "client_get_channels w = Inr chs"
    "new_channel_list chs [] = Inr l" "client_channel w = Inr (Some ch)"
    "client_async_get_current_program w = Inr (Some p)"
    "p \<noteq> []" "current_program d \<noteq> dict_get p ''name''"
    "get_program_duration w p = Inr dur"
    "get_remaining_time w p = Inl ConnectionError"
  then show "async_update w d
      = (Returns, d\<lparr>state := None, channel_list := l, current_channel := Some ch,
           current_program := dict_get p ''name'', media_duration := dur\<rparr>)"
    by (simp add: async_update_def update_body_def refresh_channel_list_def update_program_def)
next
  assume "refresh_state w = Inr s" "client_get_channels w = Inr chs"
    "new_channel_list chs [] = Inr l" "client_channel w = Inr (Some ch)"
    "update_program w (d\<lparr>state := Some s, channel_list := l, current_channel := Some ch\<rparr>)
       = (Returns, d4)"
    "client_async_get_current_program_image w 800 = Inl ConnectionError"
  then show "async_update w d = (Returns, d4\<lparr>state := None\<rparr>)"
    by (simp add: async_update_def update_body_def refresh_channel_list_def update_image_def
        img_size_def)
next
  assume "refresh_state w = Inr s" "client_get_channels w = Inr chs"
    "new_channel_list chs [] = Inr l" "client_channel w = Inr (Some ch)"
    "update_program w (d\<lparr>state := Some s, channel_list := l, current_channel := Some ch\<rparr>)
       = (Returns, d4)"
    "client_async_get_current_program_image w 800 = Inr u" "\<not> truthy_url u"
    "client_get_current_channel_image w 800 = Inl ConnectionError"
  then show "async_update w d = (Returns, d4\<lparr>state := None\<rparr>)"
    by (simp add: async_update_def update_body_def refresh_channel_list_def update_image_def
        img_size_def)
qed

text \<open>
  Each failure in turn. From the new entity the polls that lose the tuner and the guide
  keep the catalogue, and the second the channel as well; from the entity that shows News
  the later ones keep what was written of the programme Film before the call that failed.
\<close>

theorem connection_error_caught_witness:
  "async_update w_down d_news = (Returns, d_news\<lparr>state := None\<rparr>)
   \<and> async_update w_no_catalogue d_news = (Returns, d_news\<lparr>state := None\<rparr>)
   \<and> async_update w_no_tuner (init ''tv'')
       = (Returns, (init ''tv'')\<lparr>state := None,
            channel_list := [(3, ''France 3''), (1, ''TF1''), (2, ''France 2'')]\<rparr>)
   \<and> async_update w_no_guide (init ''tv'')
       = (Returns, (init ''tv'')\<lparr>state := None,
            channel_list := [(3, ''France 3''), (1, ''TF1''), (2, ''France 2'')],
            current_channel := Some ''5''\<rparr>)
   \<and> async_update w_no_duration d_news
       = (Returns, d_news\<lparr>state := None, current_program := PyStr ''Film''\<rparr>)
   \<and> async_update w_no_position d_news
       = (Returns, d_news\<lparr>state := None, current_program := PyStr ''Film'',
            media_duration := Some 5400\<rparr>)
   \<and> async_update w_no_thumbnail d_news
       = (Returns, d_news\<lparr>state := None, current_program := PyStr ''Film'',
            media_duration := Some 5400, media_remaining_time := Some 60,
            media_last_updated := Some 3000\<rparr>)
   \<and> async_update w_no_logo d_news
       = (Returns, d_news\<lparr>state := None, current_program := PyStr ''Film'',
            media_duration := Some 5400, media_remaining_time := Some 60,
            media_last_updated := Some 3000\<rparr>)"
proof -
  let ?chs = "[\<lparr>entry_name = Inr ''France 3'', entry_index = Inr 3\<rparr>,
        \<lparr>entry_name = Inr ''TF1'', entry_index = Inr 1\<rparr>,
        \<lparr>entry_name = Inr ''France 2'', entry_index = Inr 2\<rparr>]"
  let ?l = "[(3::int, ''France 3''), (1, ''TF1''), (2, ''France 2'')]"
  let ?d4 = "d_news\<lparr>current_program := PyStr ''Film'', media_duration := Some 5400,
      media_remaining_time := Some 60, media_last_updated := Some 3000\<rparr>"
  have l: "new_channel_list ?chs [] = Inr ?l"
    by simp
  have down: "refresh_state w_down = Inl ConnectionError"
    by (simp add: refresh_state_def w_down_def w_play_def)
  have cat: "refresh_state w_no_catalogue = Inr STATE_PLAYING"
    "client_get_channels w_no_catalogue = Inl ConnectionError"
    by (simp_all add: refresh_state_def w_no_catalogue_def w_play_def)
  have tuner: "refresh_state w_no_tuner = Inr STATE_PLAYING"
    "client_get_channels w_no_tuner = Inr ?chs"
    "client_channel w_no_tuner = Inl ConnectionError"
    by (simp_all add: refresh_state_def w_no_tuner_def w_film_def w_play_def)
  have guide: "refresh_state w_no_guide = Inr STATE_PLAYING"
    "client_get_channels w_no_guide = Inr ?chs"
    "client_channel w_no_guide = Inr (Some ''5'')"
    "client_async_get_current_program w_no_guide = Inl ConnectionError"
    by (simp_all add: refresh_state_def w_no_guide_def w_film_def w_play_def)
  have film: "film \<noteq> []" "current_program d_news \<noteq> dict_get film ''name''"
    "dict_get film ''name'' = PyStr ''Film''"
    by (simp_all add: film_def d_news_def dict_get_def)
  have dur: "refresh_state w_no_duration = Inr STATE_PLAYING"
    "client_get_channels w_no_duration = Inr ?chs"
    "client_channel w_no_duration = Inr (Some ''5'')"
    "client_async_get_current_program w_no_duration = Inr (Some film)"
    "get_program_duration w_no_duration film = Inl ConnectionError"
    by (simp_all add: refresh_state_def w_no_duration_def w_film_def w_play_def)
  have pos: "refresh_state w_no_position = Inr STATE_PLAYING"
    "client_get_channels w_no_position = Inr ?chs"
    "client_channel w_no_position = Inr (Some ''5'')"
    "client_async_get_current_program w_no_position = Inr (Some film)"
    "get_program_duration w_no_position film = Inr (Some 5400)"
    "get_remaining_time w_no_position film = Inl ConnectionError"
    by (simp_all add: refresh_state_def w_no_position_def w_film_def w_play_def)
  have thumb: "refresh_state w_no_thumbnail = Inr STATE_PLAYING"
    "client_get_channels w_no_thumbnail = Inr ?chs"
    "client_channel w_no_thumbnail = Inr (Some ''5'')"
    "update_program w_no_thumbnail
       (d_news\<lparr>state := Some STATE_PLAYING, channel_list := ?l, current_channel := Some ''5''\<rparr>)
       = (Returns, ?d4)"
    "client_async_get_current_program_image w_no_thumbnail 800 = Inl ConnectionError"
    by (simp_all add: refresh_state_def update_program_def w_no_thumbnail_def w_film_def
        w_play_def film_def d_news_def dict_get_def)
  have logo: "refresh_state w_no_logo = Inr STATE_PLAYING"
    "client_get_channels w_no_logo = Inr ?chs"
    "client_channel w_no_logo = Inr (Some ''5'')"
    "update_program w_no_logo
       (d_news\<lparr>state := Some STATE_PLAYING, channel_list := ?l, current_channel := Some ''5''\<rparr>)
       = (Returns, ?d4)"
    "client_async_get_current_program_image w_no_logo 800 = Inr None" "\<not> truthy_url None"
    "client_get_current_channel_image w_no_logo 800 = Inl ConnectionError"
    by (simp_all add: refresh_state_def update_program_def w_no_logo_def w_film_def
        w_play_def film_def d_news_def dict_get_def truthy_url_def)
  have 1: "async_update w_down d_news = (Returns, d_news\<lparr>state := None\<rparr>)"
    using connection_error_caught [where w = w_down and d = d_news] down by blast
  have 2: "async_update w_no_catalogue d_news = (Returns, d_news\<lparr>state := None\<rparr>)"
    using connection_error_caught [where w = w_no_catalogue and d = d_news
        and s = STATE_PLAYING] cat by blast
  have 3: "async_update w_no_tuner (init ''tv'')
      = (Returns, (init ''tv'')\<lparr>state := None, channel_list := ?l\<rparr>)"
    using connection_error_caught [where w = w_no_tuner and d = "init ''tv''"
        and s = STATE_PLAYING and chs = ?chs and l = ?l] tuner l by blast
  have 4: "async_update w_no_guide (init ''tv'')
      = (Returns, (init ''tv'')\<lparr>state := None, channel_list := ?l,
           current_channel := Some ''5''\<rparr>)"
    using connection_error_caught [where w = w_no_guide and d = "init ''tv''"
        and s = STATE_PLAYING and chs = ?chs and l = ?l and ch = "''5''"] guide l by blast
  have 5: "async_update w_no_duration d_news
      = (Returns, d_news\<lparr>state := None, channel_list := ?l, current_channel := Some ''5'',
           current_program := dict_get film ''name''\<rparr>)"
    using connection_error_caught [where w = w_no_duration and d = d_news
        and s = STATE_PLAYING and chs = ?chs and l = ?l and ch = "''5''" and p = film]
      dur film(1,2) l by blast
  have 6: "async_update w_no_position d_news
      = (Returns, d_news\<lparr>state := None, channel_list := ?l, current_channel := Some ''5'',
           current_program := dict_get film ''name'', media_duration := Some 5400\<rparr>)"
    using connection_error_caught [where w = w_no_position and d = d_news
        and s = STATE_PLAYING and chs = ?chs and l = ?l and ch = "''5''" and p = film
        and dur = "Some 5400"]
      pos film(1,2) l by blast
  have 7: "async_update w_no_thumbnail d_news = (Returns, ?d4\<lparr>state := None\<rparr>)"
    using connection_error_caught [where w = w_no_thumbnail and d = d_news
        and s = STATE_PLAYING and chs = ?chs and l = ?l and ch = "''5''" and ?d4.0 = ?d4]
      thumb l by blast
  have 8: "async_update w_no_logo d_news = (Returns, ?d4\<lparr>state := None\<rparr>)"
    using connection_error_caught [where w = w_no_logo and d = d_news
        and s = STATE_PLAYING and chs = ?chs and l = ?l and ch = "''5''" and ?d4.0 = ?d4
        and u = None]
      logo l by blast
  show ?thesis
    unfolding 1 2 3 4 5 6 7 8 by (simp add: d_news_def film(3))
qed

subsection \<open>No channel tuned\<close>

text \<open>
  C8. When the appliance reports no tuned channel (\<^verbatim>\<open>channel\<close> is \<^verbatim>\<open>None\<close>), the poll
  leaves the current channel, the program name, the duration, the remaining time, the
  image and the time of the last update as they were.
\<close>

theorem null_channel_frame:
  assumes "client_channel w = Inr None"
  shows "current_channel (snd (async_update w d)) = current_channel d
    \<and> current_program (snd (async_update w d)) = current_program d
    \<and> media_duration (snd (async_update w d)) = media_duration d
    \<and> media_remaining_time (snd (async_update w d)) = media_remaining_time d
    \<and> media_image_url (snd (async_update w d)) = media_image_url d
    \<and> media_last_updated (snd (async_update w d)) = media_last_updated d"
  using assms
  by (auto simp: async_update_def update_body_def refresh_channel_list_def
      split: sum.splits outcome.splits error.splits prod.splits)

theorem null_channel_frame_witness:
  "client_channel w_standby = Inr None
   \<and> state (snd (async_update w_standby d_news)) = Some STATE_OFF
   \<and> current_channel (snd (async_update w_standby d_news)) = Some ''5''
   \<and> current_program (snd (async_update w_standby d_news)) = PyStr ''News''
   \<and> media_duration (snd (async_update w_standby d_news)) = Some 1800
   \<and> media_remaining_time (snd (async_update w_standby d_news)) = Some 900
   \<and> media_image_url (snd (async_update w_standby d_news)) = Some ''logo''
   \<and> media_last_updated (snd (async_update w_standby d_news)) = Some 1000"
proof -
  have h: "client_channel w_standby = Inr None"
    by (simp add: w_standby_def)
  have s: "state (snd (async_update w_standby d_news)) = Some STATE_OFF"
    by (simp add: poll_defs sample_defs w_standby_def)
  show ?thesis
    using h s null_channel_frame [OF h, of d_news] by (simp add: d_news_def)
qed

subsection \<open>The program of the tuned channel\<close>

text \<open>
  The remaining time is read inside the branch taken when the program name has changed.
  Here the appliance still shows News and the remaining time has gone from 900 to 600:
  the poll keeps 900 and the time of the last update.
\<close>

theorem remaining_time_counterexample:
  "client_channel w_later = Inr (Some ''5'')
   \<and> client_async_get_current_program w_later = Inr (Some news)
   \<and> current_program d_news = dict_get news ''name''
   \<and> get_remaining_time w_later news = Inr (Some 600)
   \<and> media_remaining_time d_news = Some 900
   \<and> fst (async_update w_later d_news) = Returns
   \<and> media_remaining_time (snd (async_update w_later d_news)) = Some 900
   \<and> media_last_updated (snd (async_update w_later d_news)) = media_last_updated d_news"
  by (simp add: poll_defs sample_defs w_later_def)

text \<open>
  C3, amended. In a poll that reads a tuned channel and fetches a program, the remaining
  time is recomputed only when the program is a non-empty dictionary whose name differs
  from the stored name: then, if the remaining time differs from the stored one, the
  remaining time and the time of the last update are both replaced. When the name is
  the stored name (or the dictionary is empty) both are left as they were.
\<close>

theorem remaining_time_on_name_change:
  assumes "refresh_state w = Inr s" and "fst (refresh_channel_list w d) = Returns"
    and "client_channel w = Inr (Some ch)"
    and "client_async_get_current_program w = Inr (Some p)"
  shows "(p \<noteq> [] \<and> current_program d \<noteq> dict_get p ''name''
          \<and> get_program_duration w p = Inr dur \<and> get_remaining_time w p = Inr rtime
          \<and> rtime \<noteq> media_remaining_time d \<longrightarrow>
            media_remaining_time (snd (async_update w d)) = rtime
          \<and> media_last_updated (snd (async_update w d)) = Some (utcnow w))
       \<and> (p = [] \<or> current_program d = dict_get p ''name'' \<longrightarrow>
            media_remaining_time (snd (async_update w d)) = media_remaining_time d
          \<and> media_last_updated (snd (async_update w d)) = media_last_updated d)"
proof -
  from update_body_tuned [OF assms(1-3)] obtain l where
    body: "update_body w d =
      (case update_program w (d\<lparr>state := Some s, channel_list := l, current_channel := Some ch\<rparr>) of
         (Raises e, d4) \<Rightarrow> (Raises e, d4)
       | (Returns, d4) \<Rightarrow> update_image w d4)" ..
  show ?thesis
    unfolding async_update_frame body then_image_frame
    using assms(4) by (auto simp: update_program_def)
qed

text \<open>The program changes to Film: 60 and the clock. It stays News: 900 and 1000.\<close>

theorem remaining_time_on_name_change_witness:
  "media_remaining_time (snd (async_update w_film d_news)) = Some 60
   \<and> media_last_updated (snd (async_update w_film d_news)) = Some 3000
   \<and> media_remaining_time (snd (async_update w_later d_news)) = Some 900
   \<and> media_last_updated (snd (async_update w_later d_news)) = Some 1000"
proof -
  have film: "refresh_state w_film = Inr STATE_PLAYING"
    "fst (refresh_channel_list w_film d_news) = Returns"
    "client_channel w_film = Inr (Some ''5'')"
    "client_async_get_current_program w_film = Inr (Some film)"
    by (simp_all add: refresh_state_def refresh_channel_list_def w_film_def w_play_def)
  have film': "film \<noteq> []" "current_program d_news \<noteq> dict_get film ''name''"
    "get_program_duration w_film film = Inr (Some 5400)"
    "get_remaining_time w_film film = Inr (Some 60)"
    "Some 60 \<noteq> media_remaining_time d_news" "utcnow w_film = 3000"
    by (simp_all add: w_film_def w_play_def film_def d_news_def dict_get_def)
  have later: "refresh_state w_later = Inr STATE_PLAYING"
    "fst (refresh_channel_list w_later d_news) = Returns"
    "client_channel w_later = Inr (Some ''5'')"
    "client_async_get_current_program w_later = Inr (Some news)"
    by (simp_all add: refresh_state_def refresh_channel_list_def w_later_def w_play_def)
  have later': "current_program d_news = dict_get news ''name''"
    "media_remaining_time d_news = Some 900" "media_last_updated d_news = Some 1000"
    by (simp_all add: news_def d_news_def dict_get_def)
  show ?thesis
    using remaining_time_on_name_change [OF film, of "Some 5400" "Some 60"] film'
      remaining_time_on_name_change [OF later] later'
    by simp
qed

text \<open>
  C7. In a poll that reads a tuned channel and fetches a program whose name differs from
  the stored name, while the remaining time computed from it is the stored one, the
  duration is recomputed from the fetched program and the time of the last update is
  left as it was.
\<close>

theorem duration_on_name_change:
  assumes "refresh_state w = Inr s" and "fst (refresh_channel_list w d) = Returns"
    and "client_channel w = Inr (Some ch)"
    and "client_async_get_current_program w = Inr (Some p)" and "p \<noteq> []"
    and "current_program d \<noteq> dict_get p ''name''"
    and "get_program_duration w p = Inr dur"
    and "get_remaining_time w p = Inr (media_remaining_time d)"
  shows "media_duration (snd (async_update w d)) = dur
       \<and> media_last_updated (snd (async_update w d)) = media_last_updated d
       \<and> media_remaining_time (snd (async_update w d)) = media_remaining_time d
       \<and> current_program (snd (async_update w d)) = dict_get p ''name''"
proof -
  from update_body_tuned [OF assms(1-3)] obtain l where
    body: "update_body w d =
      (case update_program w (d\<lparr>state := Some s, channel_list := l, current_channel := Some ch\<rparr>) of
         (Raises e, d4) \<Rightarrow> (Raises e, d4)
       | (Returns, d4) \<Rightarrow> update_image w d4)" ..
  show ?thesis
    unfolding async_update_frame body then_image_frame
    using assms(4-) by (simp add: update_program_def)
qed

theorem duration_on_name_change_witness:
  "media_duration d_news = Some 1800
   \<and> media_duration (snd (async_update w_film_same d_news)) = Some 5400
   \<and> media_last_updated (snd (async_update w_film_same d_news)) = Some 1000
   \<and> current_program (snd (async_update w_film_same d_news)) = PyStr ''Film''"
proof -
  have h: "refresh_state w_film_same = Inr STATE_PLAYING"
    "fst (refresh_channel_list w_film_same d_news) = Returns"
    "client_channel w_film_same = Inr (Some ''5'')"
    "client_async_get_current_program w_film_same = Inr (Some film)"
    "film \<noteq> []" "current_program d_news \<noteq> dict_get film ''name''"
    "get_program_duration w_film_same film = Inr (Some 5400)"
    "get_remaining_time w_film_same film = Inr (media_remaining_time d_news)"
    by (simp_all add: refresh_state_def refresh_channel_list_def w_film_same_def w_film_def
        w_play_def film_def d_news_def dict_get_def)
  show ?thesis
    using duration_on_name_change [OF h] by (simp add: d_news_def film_def dict_get_def)
qed

subsection \<open>The image\<close>

lemma update_body_Returns_tuned:
  assumes "fst (update_body w d) = Returns" and "client_channel w = Inr (Some ch)"
  shows "\<exists>d4. update_body w d = update_image w d4"
  using assms
  by (auto simp: update_body_def split: sum.splits prod.splits outcome.splits)

lemma update_image_Returns:
  assumes "fst (update_image w d) = Returns"
  shows "\<exists>u. client_async_get_current_program_image w 800 = Inr u
     \<and> (truthy_url u \<longrightarrow> media_image_url (snd (update_image w d)) = u)
     \<and> (\<not> truthy_url u \<longrightarrow>
          client_get_current_channel_image w 800 = Inr (media_image_url (snd (update_image w d))))"
  using assms
  by (auto simp: update_image_def img_size_def split: sum.splits if_splits)

text \<open>
  C9. After a poll that raised nothing and read a tuned channel, the stored image is the
  one this poll resolved: the thumbnail of the program at 800 pixels when the appliance
  has one, and otherwise the image of the channel at 800 pixels. Nothing is asked of the
  program attributes, which may all be unchanged.
\<close>

theorem image_overwritten:
  assumes "fst (update_body w d) = Returns" and "client_channel w = Inr (Some ch)"
  shows "\<exists>u. client_async_get_current_program_image w 800 = Inr u
     \<and> (truthy_url u \<longrightarrow> media_image_url (snd (async_update w d)) = u)
     \<and> (\<not> truthy_url u \<longrightarrow>
          client_get_current_channel_image w 800 = Inr (media_image_url (snd (async_update w d))))"
proof -
  from update_body_Returns_tuned [OF assms] obtain d4
    where body: "update_body w d = update_image w d4" ..
  with assms(1) have "fst (update_image w d4) = Returns" by simp
  from update_image_Returns [OF this] show ?thesis
    unfolding async_update_frame body .
qed

text \<open>
  The program attributes of the entity are those of the appliance in both polls: with a
  thumbnail the stored logo is replaced by it, and without one by the logo of the channel.
\<close>

theorem image_overwritten_witness:
  "media_image_url d_news = Some ''logo''
   \<and> media_image_url (snd (async_update w_thumb d_news)) = Some ''thumb''
   \<and> media_image_url (snd (async_update w_play (d_news\<lparr>media_image_url := Some ''old''\<rparr>)))
       = Some ''logo''"
proof -
  have thumb: "fst (update_body w_thumb d_news) = Returns"
    "client_channel w_thumb = Inr (Some ''5'')"
    by (simp_all add: poll_defs sample_defs w_thumb_def)
  have thumb': "client_async_get_current_program_image w_thumb 800 = Inr (Some ''thumb'')"
    "truthy_url (Some ''thumb'')"
    by (simp_all add: w_thumb_def truthy_url_def)
  have logo: "fst (update_body w_play (d_news\<lparr>media_image_url := Some ''old''\<rparr>)) = Returns"
    "client_channel w_play = Inr (Some ''5'')"
    by (simp_all add: poll_defs sample_defs)
  have logo': "client_async_get_current_program_image w_play 800 = Inr None"
    "\<not> truthy_url None" "client_get_current_channel_image w_play 800 = Inr (Some ''logo'')"
    by (simp_all add: w_play_def truthy_url_def)
  show ?thesis
    using image_overwritten [OF thumb] thumb' image_overwritten [OF logo] logo'
    by (auto simp: d_news_def)
qed

subsection \<open>The playback state\<close>

lemma update_body_state:
  assumes "refresh_state w = Inr s"
  shows "state (snd (update_body w d)) = Some s"
proof -
  obtain r d2 where list: "refresh_channel_list w (d\<lparr>state := Some s\<rparr>) = (r, d2)"
    by force
  then have d2: "state d2 = Some s"
    by (simp add: state_frame(1))
  show ?thesis
  proof (cases r)
    case (Raises e)
    with assms list d2 show ?thesis by (simp add: update_body_def)
  next
    case Returns
    show ?thesis
    proof (cases "client_channel w")
      case (Inl e)
      with assms list d2 Returns show ?thesis by (simp add: update_body_def)
    next
      case (Inr c)
      show ?thesis
      proof (cases c)
        case None
        with assms list d2 Returns Inr show ?thesis by (simp add: update_body_def)
      next
        case (Some channel)
        obtain r4 d4 where prog:
          "update_program w (d2\<lparr>current_channel := Some channel\<rparr>) = (r4, d4)"
          by force
        then have d4: "state d4 = Some s"
          using d2 by (simp add: state_frame(2))
        obtain r5 d5 where img: "update_image w d4 = (r5, d5)"
          by force
        then have "state d5 = Some s"
          using d4 by (simp add: state_frame(3))
        with assms list Returns Inr Some prog d4 img show ?thesis
          by (cases r4) (simp_all add: update_body_def)
      qed
    qed
  qed
qed

text \<open>
  C5. When \<^verbatim>\<open>media_state\<close> answers, the state derived is \<^verbatim>\<open>STATE_PLAYING\<close> for
  \<^verbatim>\<open>'PLAY'\<close> whatever the power flag, \<^verbatim>\<open>STATE_PAUSED\<close> for \<^verbatim>\<open>'PAUSE'\<close>, and otherwise
  \<^verbatim>\<open>STATE_ON\<close> when \<^verbatim>\<open>is_on\<close> is true and \<^verbatim>\<open>STATE_OFF\<close> when it is false. The body of
  the poll stores that state and no later step of it writes another.
\<close>

theorem derived_state:
  assumes "client_media_state w = Inr st"
  shows "(st = Some ''PLAY'' \<longrightarrow> refresh_state w = Inr STATE_PLAYING)
     \<and> (st = Some ''PAUSE'' \<longrightarrow> refresh_state w = Inr STATE_PAUSED)
     \<and> (st \<noteq> Some ''PLAY'' \<and> st \<noteq> Some ''PAUSE'' \<and> client_is_on w = Inr True \<longrightarrow>
          refresh_state w = Inr STATE_ON)
     \<and> (st \<noteq> Some ''PLAY'' \<and> st \<noteq> Some ''PAUSE'' \<and> client_is_on w = Inr False \<longrightarrow>
          refresh_state w = Inr STATE_OFF)
     \<and> (\<forall>s. refresh_state w = Inr s \<longrightarrow> state (snd (update_body w d)) = Some s)"
  using assms by (simp add: refresh_state_def update_body_state)

theorem derived_state_witness:
  "client_is_on w_play_off = Inr False \<and> refresh_state w_play_off = Inr STATE_PLAYING
   \<and> state (snd (update_body w_play_off d_news)) = Some STATE_PLAYING
   \<and> refresh_state w_pause = Inr STATE_PAUSED
   \<and> refresh_state w_idle = Inr STATE_ON
   \<and> refresh_state w_standby = Inr STATE_OFF"
proof -
  have h: "client_media_state w_play_off = Inr (Some ''PLAY'')"
    "client_media_state w_pause = Inr (Some ''PAUSE'')"
    "client_media_state w_idle = Inr None" "client_media_state w_standby = Inr None"
    by (simp_all add: w_play_off_def w_pause_def w_idle_def w_standby_def w_play_def)
  have on: "client_is_on w_play_off = Inr False" "client_is_on w_idle = Inr True"
    "client_is_on w_standby = Inr False"
    by (simp_all add: w_play_off_def w_idle_def w_standby_def w_play_def)
  show ?thesis
    using derived_state [OF h(1), of d_news] derived_state [OF h(2), of d_news]
      derived_state [OF h(3), of d_news] derived_state [OF h(4), of d_news] on
    by simp
qed

subsection \<open>Commands\<close>

text \<open>
  C10. \<^verbatim>\<open>turn_off\<close>, \<^verbatim>\<open>turn_on\<close>, \<^verbatim>\<open>media_play\<close>, \<^verbatim>\<open>media_pause\<close> and \<^verbatim>\<open>mute_volume\<close>
  assign the attribute first and call the client after: the entity holds the new value
  however the call ends, and when the call raises, the exception leaves the method with
  the new value in place.
\<close>

theorem optimistic_before_call:
  "snd (turn_off w d) = d\<lparr>state := Some STATE_OFF\<rparr>
   \<and> snd (turn_on w d) = d\<lparr>state := Some STATE_ON\<rparr>
   \<and> snd (media_play w d) = d\<lparr>state := Some STATE_PLAYING\<rparr>
   \<and> snd (media_pause w d) = d\<lparr>state := Some STATE_PAUSED\<rparr>
   \<and> snd (mute_volume w d flag) = d\<lparr>muted := flag\<rparr>
   \<and> (client_turn_off w = Inl e \<longrightarrow> turn_off w d = (Raises e, d\<lparr>state := Some STATE_OFF\<rparr>))
   \<and> (client_turn_on w = Inl e \<longrightarrow> turn_on w d = (Raises e, d\<lparr>state := Some STATE_ON\<rparr>))
   \<and> (client_play w = Inl e \<longrightarrow> media_play w d = (Raises e, d\<lparr>state := Some STATE_PLAYING\<rparr>))
   \<and> (client_pause w = Inl e \<longrightarrow> media_pause w d = (Raises e, d\<lparr>state := Some STATE_PAUSED\<rparr>))
   \<and> (client_mute w = Inl e \<longrightarrow> mute_volume w d flag = (Raises e, d\<lparr>muted := flag\<rparr>))"
  by (simp add: turn_off_def turn_on_def media_play_def media_pause_def mute_volume_def call_def
      split: sum.splits)

theorem optimistic_before_call_witness:
  "turn_off w_unreachable d_news = (Raises ConnectionError, d_news\<lparr>state := Some STATE_OFF\<rparr>)
   \<and> turn_on w_unreachable d_news = (Raises ConnectionError, d_news\<lparr>state := Some STATE_ON\<rparr>)
   \<and> media_play w_unreachable d_news
       = (Raises ConnectionError, d_news\<lparr>state := Some STATE_PLAYING\<rparr>)
   \<and> media_pause w_unreachable d_news
       = (Raises ConnectionError, d_news\<lparr>state := Some STATE_PAUSED\<rparr>)
   \<and> mute_volume w_unreachable d_news True = (Raises ConnectionError, d_news\<lparr>muted := True\<rparr>)
   \<and> is_volume_muted (snd (mute_volume w_unreachable d_news True))"
proof -
  have h: "client_turn_off w_unreachable = Inl ConnectionError"
    "client_turn_on w_unreachable = Inl ConnectionError"
    "client_play w_unreachable = Inl ConnectionError"
    "client_pause w_unreachable = Inl ConnectionError"
    "client_mute w_unreachable = Inl ConnectionError"
    by (simp_all add: w_unreachable_def)
  show ?thesis
    using optimistic_before_call [of w_unreachable d_news True ConnectionError] h
    by (simp add: is_volume_muted_def)
qed

lemma select_source_source: "source (snd (select_source w d src)) = source d"
  by (simp add: select_source_def source_def call_def split: sum.splits)

text \<open>
  C4. \<^verbatim>\<open>select_source\<close> calls the client and assigns \<^verbatim>\<open>_current_source\<close>, an attribute
  that no property reads: \<^verbatim>\<open>source\<close> returns \<^verbatim>\<open>_current_channel\<close>. After selecting TF1
  on the entity that shows channel 5, the source is still 5.
\<close>

theorem select_source_not_shown:
  "select_source w_play d_news ''TF1'' = (Returns, d_news\<lparr>current_source := Some ''TF1''\<rparr>)
   \<and> source (snd (select_source w_play d_news ''TF1'')) = Some ''5''
   \<and> source (snd (select_source w_play d_news ''TF1'')) \<noteq> Some ''TF1''"
  by (simp add: select_source_def source_def call_def sample_defs)

subsection \<open>The list of sources\<close>

lemma new_channel_list_distinct:
  "distinct (map fst acc) \<Longrightarrow> new_channel_list chs acc = Inr l \<Longrightarrow> distinct (map fst l)"
proof (induction chs arbitrary: acc)
  case Nil
  then show ?case by simp
next
  case (Cons channel rest)
  from Cons.prems(2) obtain nm i where
    "new_channel_list rest (AList.update i nm acc) = Inr l"
    by (auto split: sum.splits)
  moreover have "distinct (map fst (AList.update i nm acc))"
    using Cons.prems(1) by (rule AList.distinct_update)
  ultimately show ?case by (rule Cons.IH [rotated])
qed

lemma map_insort_key: "map f (insort_key f x xs) = insort (f x) (map f xs)"
  by (induction xs) simp_all

lemma map_sort_key: "map f (sort_key f xs) = sort (map f xs)"
  by (induction xs) (simp_all add: map_insort_key)

lemma lookup_sorted:
  assumes "distinct (map fst cl)"
  shows "map (\<lambda>c. the (map_of cl c)) (sort (map fst cl)) = map snd (sort_key fst cl)"
proof -
  have "the (map_of cl (fst p)) = snd p" if "p \<in> set cl" for p
  proof -
    from that have "(fst p, snd p) \<in> set cl" by simp
    with assms have "map_of cl (fst p) = Some (snd p)" by (rule map_of_is_SomeI)
    then show ?thesis by simp
  qed
  then have "map (\<lambda>p. the (map_of cl (fst p))) (sort_key fst cl) = map snd (sort_key fst cl)"
    by simp
  then show ?thesis
    by (simp add: map_sort_key [symmetric] comp_def)
qed

lemma keys_ascending:
  assumes "distinct (map fst cl)"
  shows "sorted_wrt (<) (map fst (sort_key fst cl))"
  using assms by (simp add: strict_sorted_iff map_sort_key)

lemma keys_sorted_list_of_set:
  assumes "distinct (map fst cl)"
  shows "sort (map fst cl) = sorted_list_of_set (fst ` set cl)"
proof -
  have "sorted_list_of_set (set (map fst cl)) = sort (remdups (map fst cl))"
    by (rule sorted_list_of_set_sort_remdups)
  with assms show ?thesis by (simp add: distinct_remdups_id)
qed

text \<open>
  C6. Whatever the order in which the entries were stored, \<^verbatim>\<open>source_list\<close> is the list
  of the names of the stored channels by strictly ascending index: the names of the
  stored pairs sorted by index, each stored pair once; the list depends on the
  dictionary only through its keys and the names found under them.
\<close>

theorem source_list_ascending:
  assumes "wf_channel_list d"
  shows "source_list d = map snd (sort_key fst (channel_list d))
    \<and> sorted_wrt (<) (map fst (sort_key fst (channel_list d)))
    \<and> mset (sort_key fst (channel_list d)) = mset (channel_list d)
    \<and> source_list d = map (\<lambda>c. the (map_of (channel_list d) c))
         (sorted_list_of_set (fst ` set (channel_list d)))"
proof -
  from assms have keys: "distinct (map fst (channel_list d))"
    by (simp add: wf_channel_list_def)
  have "source_list d = map snd (sort_key fst (channel_list d))"
    unfolding source_list_def using keys by (rule lookup_sorted)
  moreover have "sorted_wrt (<) (map fst (sort_key fst (channel_list d)))"
    using keys by (rule keys_ascending)
  moreover have "source_list d = map (\<lambda>c. the (map_of (channel_list d) c))
      (sorted_list_of_set (fst ` set (channel_list d)))"
    unfolding source_list_def by (simp only: keys_sorted_list_of_set [OF keys])
  ultimately show ?thesis by simp
qed

text \<open>The catalogue of the sample appliance came as 3, 1, 2.\<close>

theorem source_list_ascending_witness:
  "wf_channel_list d_news \<and> map fst (channel_list d_news) = [3, 1, 2]
   \<and> source_list d_news = [''TF1'', ''France 2'', ''France 3'']"
proof -
  have h: "wf_channel_list d_news"
    by (simp add: wf_channel_list_def d_news_def)
  show ?thesis
    using h source_list_ascending [OF h] by (simp add: d_news_def)
qed

text \<open>
  Every entity the module can build has a well-formed channel list: \<^verbatim>\<open>__init__\<close>
  makes one, and the poll and the commands keep it.
\<close>

lemma update_body_preserves:
  assumes "Q d"
    and "\<And>s e. Q e \<Longrightarrow> Q (e\<lparr>state := s\<rparr>)"
    and "\<And>c e. Q e \<Longrightarrow> Q (e\<lparr>current_channel := c\<rparr>)"
    and "\<And>e. Q e \<Longrightarrow> Q (snd (refresh_channel_list w e))"
    and "\<And>e. Q e \<Longrightarrow> Q (snd (update_program w e))"
    and "\<And>e. Q e \<Longrightarrow> Q (snd (update_image w e))"
  shows "Q (snd (update_body w d))"
proof (cases "refresh_state w")
  case (Inl e)
  with assms(1) show ?thesis by (simp add: update_body_def)
next
  case (Inr s)
  obtain r d2 where list: "refresh_channel_list w (d\<lparr>state := Some s\<rparr>) = (r, d2)"
    by force
  have d2: "Q d2"
    using assms(4) [OF assms(2) [OF assms(1)], of "Some s"] list by simp
  show ?thesis
  proof (cases r)
    case (Raises e)
    with Inr list d2 show ?thesis by (simp add: update_body_def)
  next
    case Returns
    show ?thesis
    proof (cases "client_channel w")
      case (Inl e)
      with \<open>refresh_state w = Inr s\<close> list d2 Returns show ?thesis
        by (simp add: update_body_def)
    next
      case c: (Inr c)
      show ?thesis
      proof (cases c)
        case None
        with Inr list d2 Returns c show ?thesis by (simp add: update_body_def)
      next
        case (Some channel)
        obtain r4 d4 where prog:
          "update_program w (d2\<lparr>current_channel := Some channel\<rparr>) = (r4, d4)"
          by force
        have d4: "Q d4"
          using assms(5) [OF assms(3) [OF d2], of "Some channel"] prog by simp
        have "Q (snd (update_image w d4))"
          using d4 by (rule assms(6))
        with Inr list Returns c Some prog d4 show ?thesis
          by (cases r4) (simp_all add: update_body_def)
      qed
    qed
  qed
qed

lemma async_update_preserves:
  assumes "Q (snd (update_body w d))" and "\<And>s e. Q e \<Longrightarrow> Q (e\<lparr>state := s\<rparr>)"
  shows "Q (snd (async_update w d))"
proof (cases "update_body w d")
  case (Pair r d')
  with assms(1) have "Q d'" by simp
  with Pair assms(2) [of d' None] show ?thesis
    by (simp add: async_update_def split: outcome.splits error.splits)
qed

lemma wf_refresh_channel_list:
  "wf_channel_list d \<Longrightarrow> wf_channel_list (snd (refresh_channel_list w d))"
  by (auto simp: wf_channel_list_def refresh_channel_list_def
      split: sum.splits intro: new_channel_list_distinct [of "[]"])

lemma wf_update_program:
  "wf_channel_list d \<Longrightarrow> wf_channel_list (snd (update_program w d))"
  by (auto simp: wf_channel_list_def update_program_def Let_def split: sum.splits option.splits)

lemma wf_update_image:
  "wf_channel_list d \<Longrightarrow> wf_channel_list (snd (update_image w d))"
  by (auto simp: wf_channel_list_def update_image_def split: sum.splits)

lemma wf_init: "wf_channel_list (init nm)"
  by (simp add: wf_channel_list_def init_def)

lemma wf_async_update:
  assumes "wf_channel_list d"
  shows "wf_channel_list (snd (async_update w d))"
proof (rule async_update_preserves)
  show "wf_channel_list (snd (update_body w d))"
    using assms
    by (rule update_body_preserves)
      (simp_all add: wf_refresh_channel_list wf_update_program wf_update_image,
        simp_all add: wf_channel_list_def)
qed (simp add: wf_channel_list_def)

lemma wf_commands:
  assumes "wf_channel_list d"
  shows "wf_channel_list (snd (turn_off w d))" "wf_channel_list (snd (turn_on w d))"
    "wf_channel_list (snd (mute_volume w d flag))" "wf_channel_list (snd (select_source w d src))"
    "wf_channel_list (snd (media_play w d))" "wf_channel_list (snd (media_pause w d))"
  using assms
  by (simp_all add: wf_channel_list_def turn_off_def turn_on_def mute_volume_def
      select_source_def media_play_def media_pause_def call_def split: sum.splits)

text \<open>
  Two catalogues with the same entries, no index twice, give the same list of sources
  in whatever order each of them comes.
\<close>

lemma new_channel_list_succeeds:
  "(\<exists>l. new_channel_list chs acc = Inr l)
     \<longleftrightarrow> (\<forall>c\<in>set chs. \<not> isl (entry_name c) \<and> \<not> isl (entry_index c))"
  by (induction chs arbitrary: acc) (auto split: sum.splits)

lemma new_channel_list_map_of:
  "new_channel_list chs acc = Inr l \<Longrightarrow> map_of l = map_of acc ++ map_of (rev (pairs chs))"
proof (induction chs arbitrary: acc)
  case Nil
  then show ?case by (simp add: pairs_def)
next
  case (Cons channel rest)
  from Cons.prems obtain nm i where
    e: "entry_name channel = Inr nm" "entry_index channel = Inr i"
    and l: "new_channel_list rest (AList.update i nm acc) = Inr l"
    by (auto split: sum.splits)
  from Cons.IH [OF l]
  have "map_of l = (map_of acc)(i \<mapsto> nm) ++ map_of (rev (pairs rest))"
    by (simp only: update_conv')
  also have "\<dots> = map_of acc ++ map_of (rev (pairs (channel # rest)))"
    using e by (auto simp: pairs_def map_add_def fun_eq_iff split: option.splits)
  finally show ?case .
qed

text \<open>The list of sources is a function of the dictionary, not of its insertion order.\<close>

lemma source_list_map_of:
  assumes "wf_channel_list d" and "wf_channel_list e"
    and "map_of (channel_list d) = map_of (channel_list e)"
  shows "source_list d = source_list e"
proof -
  from assms have "set (channel_list d) = set (channel_list e)"
    by (simp add: wf_channel_list_def map_of_inject_set)
  then have "fst ` set (channel_list d) = fst ` set (channel_list e)"
    by simp
  moreover have "sort (map fst (channel_list d)) = sorted_list_of_set (fst ` set (channel_list d))"
    "sort (map fst (channel_list e)) = sorted_list_of_set (fst ` set (channel_list e))"
    using assms(1,2) by (simp_all only: wf_channel_list_def keys_sorted_list_of_set)
  ultimately show ?thesis
    using assms(3) by (simp only: source_list_def)
qed

lemma pairs_distinct:
  assumes "distinct (map entry_index chs)" and "\<forall>c\<in>set chs. \<not> isl (entry_index c)"
  shows "distinct (map fst (rev (pairs chs)))"
proof -
  have "inj_on (\<lambda>c. projr (entry_index c)) (set chs)"
  proof (rule inj_onI)
    fix c c' assume c: "c \<in> set chs" "c' \<in> set chs"
      and eq: "projr (entry_index c) = projr (entry_index c')"
    from c assms(2) have "\<not> isl (entry_index c)" "\<not> isl (entry_index c')" by simp_all
    with eq have "entry_index c = entry_index c'"
      by (cases "entry_index c"; cases "entry_index c'") simp_all
    with c assms(1) show "c = c'" by (simp add: distinct_map inj_on_def)
  qed
  moreover from assms(1) have "distinct chs" by (simp add: distinct_map)
  ultimately have "distinct (map (\<lambda>c. projr (entry_index c)) chs)"
    by (simp add: distinct_map)
  then show ?thesis by (simp add: pairs_def rev_map [symmetric] comp_def)
qed

lemma source_list_catalogue_order:
  assumes "client_get_channels w = Inr chs" and "client_get_channels w' = Inr chs'"
    and "mset chs = mset chs'" and "distinct (map entry_index chs)"
    and "fst (refresh_channel_list w d) = Returns"
  shows "fst (refresh_channel_list w' d') = Returns
    \<and> source_list (snd (refresh_channel_list w' d')) = source_list (snd (refresh_channel_list w d))"
proof -
  from assms(1,5) obtain l where l: "new_channel_list chs [] = Inr l"
    by (auto simp: refresh_channel_list_def split: sum.splits)
  have same: "set chs' = set chs"
    using assms(3) by (metis set_mset_mset)
  from l have ok: "\<forall>c\<in>set chs. \<not> isl (entry_name c) \<and> \<not> isl (entry_index c)"
    using new_channel_list_succeeds [of chs "[]"] by blast
  then obtain l' where l': "new_channel_list chs' [] = Inr l'"
    using new_channel_list_succeeds [of chs' "[]"] same by blast
  have "mset (map entry_index chs) = mset (map entry_index chs')"
    using assms(3) by simp
  then have "distinct (map entry_index chs) = distinct (map entry_index chs')"
    by (rule mset_eq_imp_distinct_iff)
  with assms(4) have keys': "distinct (map entry_index chs')"
    by simp
  have "map_of (rev (pairs chs)) = map_of (rev (pairs chs'))"
  proof -
    have "distinct (map fst (rev (pairs chs)))" "distinct (map fst (rev (pairs chs')))"
      using assms(4) keys' ok same by (simp_all add: pairs_distinct)
    moreover have "set (rev (pairs chs)) = set (rev (pairs chs'))"
      using same by (simp add: pairs_def)
    ultimately show ?thesis by (simp add: map_of_inject_set)
  qed
  then have maps: "map_of l' = map_of l"
    using new_channel_list_map_of [OF l] new_channel_list_map_of [OF l'] by simp
  have "wf_channel_list (d\<lparr>channel_list := l\<rparr>)" "wf_channel_list (d'\<lparr>channel_list := l'\<rparr>)"
    using new_channel_list_distinct [OF _ l] new_channel_list_distinct [OF _ l']
    by (simp_all add: wf_channel_list_def)
  then have "source_list (d'\<lparr>channel_list := l'\<rparr>) = source_list (d\<lparr>channel_list := l\<rparr>)"
    using maps by (intro source_list_map_of) simp_all
  then show ?thesis
    using assms(1,2) l l' by (simp add: refresh_channel_list_def source_list_def)
qed


end
